theory Spec2Isabelle
  imports Main "HOL-Library.Word" "HOL-Library.AList"
begin

unbundle bit_operations_syntax

section \<open>Python values, errors and byte strings\<close>

text \<open>
  A byte is an 8-bit word, a Python \<open>bytes\<close> object a list of bytes, and a Python
  \<open>str\<close> the list of its code points. Exceptions are values of \<open>error\<close>; a
  computation that may raise returns \<open>error + 'a\<close> with \<open>Inl\<close> for the exception.
\<close>

type_synonym byte = "8 word"
type_synonym pystr = "nat list"

datatype error =
    EOFError | ValueError | TypeError | KeyError | IndexError | AssertionError
  | StructError | UnicodeDecodeError | OverflowError | AttributeError
  | StopIteration | SsnsError | SystemExit | RecursionError

text \<open>
  The values the reader's \<open>current\<close> slot can hold. A float is kept as the bit
  pattern \<open>struct.unpack\<close> was given, a \<open>datetime\<close> as its microseconds since
  1601-01-01, and a nested \<open>PickleReader\<close> as the buffer it was built from (a new
  reader is determined by its buffer).
\<close>

datatype pyval =
    PNone
  | PBool bool
  | PInt int
  | PSingle nat
  | PDouble nat
  | PBytes "byte list"
  | PStr pystr
  | PDateTime int
  | PPickle "byte list"

definition thn :: "error + 'a \<Rightarrow> ('a \<Rightarrow> error + 'b) \<Rightarrow> error + 'b" where
  "thn m f = (case m of Inl e \<Rightarrow> Inl e | Inr x \<Rightarrow> f x)"

text \<open>Python truthiness, as \<open>if x:\<close> and \<open>not x\<close> use it.\<close>

fun truthy :: "pyval \<Rightarrow> bool" where
  "truthy PNone = False"
| "truthy (PBool b) = b"
| "truthy (PInt i) = (i \<noteq> 0)"
| "truthy (PSingle w) = (w mod 2 ^ 31 \<noteq> 0)"
| "truthy (PDouble w) = (w mod 2 ^ 63 \<noteq> 0)"
| "truthy (PBytes bs) = (bs \<noteq> [])"
| "truthy (PStr s) = (s \<noteq> [])"
| "truthy (PDateTime t) = True"
| "truthy (PPickle b) = True"

subsection \<open>\<open>struct.unpack\<close>, little endian\<close>

fun le_uint :: "byte list \<Rightarrow> nat" where
  "le_uint [] = 0"
| "le_uint (b # bs) = unat b + 256 * le_uint bs"

definition le_sint :: "byte list \<Rightarrow> int" where
  "le_sint bs =
     (let u = int (le_uint bs); m = (2::int) ^ (8 * length bs)
      in if 2 * u \<ge> m then u - m else u)"

text \<open>
  \<open>struct.unpack(fmt, x)\<close> raises \<open>struct.error\<close> unless \<open>x\<close> has exactly the
  size of the format; \<open>None\<close> stands for that exception.
\<close>

definition unpack_signed :: "nat \<Rightarrow> byte list \<Rightarrow> int option" where
  "unpack_signed n x = (if length x = n then Some (le_sint x) else None)"

definition unpack_unsigned :: "nat \<Rightarrow> byte list \<Rightarrow> int option" where
  "unpack_unsigned n x = (if length x = n then Some (int (le_uint x)) else None)"

definition unpack_bits :: "nat \<Rightarrow> byte list \<Rightarrow> nat option" where
  "unpack_bits n x = (if length x = n then Some (le_uint x) else None)"

subsection \<open>\<open>bytes.decode\<close>, strict\<close>

fun utf16_le :: "byte list \<Rightarrow> pystr option" where
  "utf16_le [] = Some []"
| "utf16_le [a] = None"
| "utf16_le (a # b # rest) =
     (let u = unat a + 256 * unat b in
      if u < 0xD800 \<or> 0xE000 \<le> u then map_option (Cons u) (utf16_le rest)
      else if 0xDC00 \<le> u then None
      else (case rest of
              c # d # rest' \<Rightarrow>
                (let l = unat c + 256 * unat d in
                 if 0xDC00 \<le> l \<and> l < 0xE000
                 then map_option (Cons (0x10000 + (u - 0xD800) * 1024 + (l - 0xDC00)))
                        (utf16_le rest')
                 else None)
            | _ \<Rightarrow> None))"

definition cont :: "nat \<Rightarrow> bool" where
  "cont c = (0x80 \<le> c \<and> c \<le> 0xBF)"

fun utf8 :: "byte list \<Rightarrow> pystr option" where
  "utf8 [] = Some []"
| "utf8 (a # rest) =
     (let x = unat a in
      if x < 0x80 then map_option (Cons x) (utf8 rest)
      else if 0xC2 \<le> x \<and> x \<le> 0xDF then
        (case rest of
           b # r1 \<Rightarrow>
             (let y = unat b in
              if cont y then map_option (Cons ((x - 0xC0) * 64 + (y - 0x80))) (utf8 r1)
              else None)
         | _ \<Rightarrow> None)
      else if 0xE0 \<le> x \<and> x \<le> 0xEF then
        (case rest of
           b # c # r2 \<Rightarrow>
             (let y = unat b; z = unat c in
              if cont y \<and> cont z
                 \<and> (if x = 0xE0 then 0xA0 \<le> y else if x = 0xED then y \<le> 0x9F else True)
              then map_option
                     (Cons ((x - 0xE0) * 4096 + (y - 0x80) * 64 + (z - 0x80))) (utf8 r2)
              else None)
         | _ \<Rightarrow> None)
      else if 0xF0 \<le> x \<and> x \<le> 0xF4 then
        (case rest of
           b # c # d # r3 \<Rightarrow>
             (let y = unat b; z = unat c; w = unat d in
              if cont y \<and> cont z \<and> cont w
                 \<and> (if x = 0xF0 then 0x90 \<le> y else if x = 0xF4 then y \<le> 0x8F else True)
              then map_option
                     (Cons ((x - 0xF0) * 262144 + (y - 0x80) * 4096 + (z - 0x80) * 64
                            + (w - 0x80))) (utf8 r3)
              else None)
         | _ \<Rightarrow> None)
      else None)"

section \<open>ccl\_chrome\_pickle: the record reader\<close>

datatype PickleType =
    Bool | Int16 | UInt16 | Int32 | UInt32 | Int64 | UInt64 | Single | Double
  | Blob | String | String16 | DateTime | Pickle | String16ByteCount

text \<open>
  The reader: the buffer and position of its \<open>io.BytesIO\<close> stream, and the
  attributes \<open>current\<close>, \<open>pickle_length\<close> and \<open>length\<close>.
\<close>

record PickleReader =
  stream :: "byte list"
  pos :: nat
  current :: pyval
  pickle_length :: int
  blob_length :: nat

text \<open>
  \<open>BytesIO.read(size)\<close>: the bytes from the position on, at most \<open>size\<close> of them
  (all of them when \<open>size\<close> is negative); the position moves past what was read,
  and stays where it is when it already lies beyond the end.
\<close>

definition stream_read :: "int \<Rightarrow> PickleReader \<Rightarrow> byte list \<times> PickleReader" where
  "stream_read sz r =
     (let avail = drop (pos r) (stream r);
          n = (if sz < 0 then length avail else min (nat sz) (length avail))
      in (take n avail, r\<lparr>pos := pos r + n\<rparr>))"

text \<open>\<open>BytesIO.seek(offset, 1)\<close> for an offset that is not negative.\<close>

definition stream_seek_cur :: "nat \<Rightarrow> PickleReader \<Rightarrow> PickleReader" where
  "stream_seek_cur k r = r\<lparr>pos := pos r + k\<rparr>"

text \<open>
  The private methods \<open>_read_int16\<close>, \<open>_read_int32\<close>, ... are \<open>read_int16'\<close>,
  \<open>read_int32'\<close>, ... here; \<open>None\<close> stands for the \<open>struct.error\<close> of a read that
  got too few bytes. The stream has moved past those bytes all the same.
\<close>

definition read_int16' :: "PickleReader \<Rightarrow> int option \<times> PickleReader" where
  "read_int16' r = (let (x, r') = stream_read 4 r in (unpack_signed 2 (take 2 x), r'))"

definition read_int32' :: "PickleReader \<Rightarrow> int option \<times> PickleReader" where
  "read_int32' r = (let (x, r') = stream_read 4 r in (unpack_signed 4 x, r'))"

definition read_int64' :: "PickleReader \<Rightarrow> int option \<times> PickleReader" where
  "read_int64' r = (let (x, r') = stream_read 8 r in (unpack_signed 8 x, r'))"

definition read_uint16' :: "PickleReader \<Rightarrow> int option \<times> PickleReader" where
  "read_uint16' r = (let (x, r') = stream_read 4 r in (unpack_unsigned 2 (take 2 x), r'))"

definition read_uint32' :: "PickleReader \<Rightarrow> int option \<times> PickleReader" where
  "read_uint32' r = (let (x, r') = stream_read 4 r in (unpack_unsigned 4 x, r'))"

definition read_uint64' :: "PickleReader \<Rightarrow> int option \<times> PickleReader" where
  "read_uint64' r = (let (x, r') = stream_read 8 r in (unpack_unsigned 8 x, r'))"

definition read_single' :: "PickleReader \<Rightarrow> nat option \<times> PickleReader" where
  "read_single' r = (let (x, r') = stream_read 4 r in (unpack_bits 4 x, r'))"

definition read_double' :: "PickleReader \<Rightarrow> nat option \<times> PickleReader" where
  "read_double' r = (let (x, r') = stream_read 8 r in (unpack_bits 8 x, r'))"

text \<open>
  \<open>PickleReader.__init__\<close>: the stream is opened on the buffer, the declared length
  is read from it, and the two lengths are compared.
\<close>

definition PickleReader_init :: "byte list \<Rightarrow> error + PickleReader" where
  "PickleReader_init blob =
     (let r0 = \<lparr>stream = blob, pos = 0, current = PNone, pickle_length = 0,
                blob_length = 0\<rparr>
      in case read_int32' r0 of
           (None, r1) \<Rightarrow> Inl EOFError
         | (Some n, r1) \<Rightarrow>
             if int (length blob) - 4 \<noteq> n then Inl ValueError
             else Inr (r1\<lparr>pickle_length := n, current := PNone,
                          blob_length := length blob\<rparr>))"

text \<open>
  A failed read of the public layer clears \<open>current\<close> and returns \<open>False\<close>; the
  stream keeps whatever position the failed read left it at.
\<close>

definition set_current ::
  "('a \<Rightarrow> pyval) \<Rightarrow> 'a option \<times> PickleReader \<Rightarrow> bool \<times> PickleReader" where
  "set_current mk res =
     (case res of
        (None, r') \<Rightarrow> (False, r'\<lparr>current := PNone\<rparr>)
      | (Some v, r') \<Rightarrow> (True, r'\<lparr>current := mk v\<rparr>))"

definition read_short :: "PickleReader \<Rightarrow> bool \<times> PickleReader" where
  "read_short r = set_current PInt (read_int16' r)"

definition read_int :: "PickleReader \<Rightarrow> bool \<times> PickleReader" where
  "read_int r = set_current PInt (read_int32' r)"

definition read_long :: "PickleReader \<Rightarrow> bool \<times> PickleReader" where
  "read_long r = set_current PInt (read_int64' r)"

definition read_ushort :: "PickleReader \<Rightarrow> bool \<times> PickleReader" where
  "read_ushort r = set_current PInt (read_uint16' r)"

definition read_uint :: "PickleReader \<Rightarrow> bool \<times> PickleReader" where
  "read_uint r = set_current PInt (read_uint32' r)"

definition read_ulong :: "PickleReader \<Rightarrow> bool \<times> PickleReader" where
  "read_ulong r = set_current PInt (read_uint64' r)"

definition read_bool :: "PickleReader \<Rightarrow> bool \<times> PickleReader" where
  "read_bool r = set_current (\<lambda>v. PBool (v \<noteq> 0)) (read_int32' r)"

definition read_single :: "PickleReader \<Rightarrow> bool \<times> PickleReader" where
  "read_single r = set_current PSingle (read_single' r)"

definition read_double :: "PickleReader \<Rightarrow> bool \<times> PickleReader" where
  "read_double r = set_current PDouble (read_double' r)"

text \<open>
  \<open>_read_raw\<close>: \<open>None\<close> stands for its \<open>EOFError\<close>, which leaves the stream
  where the short read ended. Python's \<open>%\<close> rounds as \<open>mod\<close> on \<open>int\<close> does.
\<close>

definition read_raw' :: "int \<Rightarrow> PickleReader \<Rightarrow> byte list option \<times> PickleReader" where
  "read_raw' len r =
     (let (blob, r1) = stream_read len r in
      if int (length blob) < len then (None, r1)
      else (let alignment = (if len mod 4 \<noteq> 0 then nat (4 - len mod 4) else 0)
            in (Some blob, stream_seek_cur alignment r1)))"

text \<open>
  \<open>datetime(1601, 1, 1) + timedelta(microseconds=x)\<close> raises \<open>OverflowError\<close>
  unless the day of the sum has an ordinal from 1 to 3652059; 1601-01-01 has ordinal
  584389.
\<close>

definition datetime_in_range :: "int \<Rightarrow> bool" where
  "datetime_in_range x =
     (0 < 584389 + x div 86400000000 \<and> 584389 + x div 86400000000 \<le> 3652059)"

definition read_timestamp :: "PickleReader \<Rightarrow> error + bool \<times> PickleReader" where
  "read_timestamp r =
     (case read_int64' r of
        (None, r1) \<Rightarrow> Inr (False, r1\<lparr>current := PNone\<rparr>)
      | (Some x, r1) \<Rightarrow>
          if datetime_in_range x then Inr (True, r1\<lparr>current := PDateTime x\<rparr>)
          else Inl OverflowError)"

definition read_blob :: "bool \<Rightarrow> PickleReader \<Rightarrow> bool \<times> PickleReader" where
  "read_blob is_doubled_length r =
     (case read_int32' r of
        (None, r1) \<Rightarrow> (False, r1\<lparr>current := PNone\<rparr>)
      | (Some len, r1) \<Rightarrow>
          if len = - 1 then (True, r1\<lparr>current := PNone\<rparr>)
          else set_current PBytes
                 (read_raw' (len * (if is_doubled_length then 2 else 1)) r1))"

text \<open>
  The three string reads decode the blob that \<open>read_blob\<close> left in \<open>current\<close>;
  a blob that does not decode raises \<open>UnicodeDecodeError\<close>.
\<close>

definition decode_current ::
  "(byte list \<Rightarrow> pystr option) \<Rightarrow> bool \<times> PickleReader \<Rightarrow> error + bool \<times> PickleReader" where
  "decode_current codec res =
     (case res of (success, r1) \<Rightarrow>
        if success \<and> current r1 \<noteq> PNone then
          (case current r1 of
             PBytes bs \<Rightarrow>
               (case codec bs of
                  None \<Rightarrow> Inl UnicodeDecodeError
                | Some s \<Rightarrow> Inr (success, r1\<lparr>current := PStr s\<rparr>))
           | _ \<Rightarrow> Inl AttributeError)
        else Inr (success, r1))"

definition read_str :: "PickleReader \<Rightarrow> error + bool \<times> PickleReader" where
  "read_str r = decode_current utf8 (read_blob False r)"

definition read_str16_with_byte_count :: "PickleReader \<Rightarrow> error + bool \<times> PickleReader" where
  "read_str16_with_byte_count r = decode_current utf16_le (read_blob False r)"

definition read_str16_with_char_count :: "PickleReader \<Rightarrow> error + bool \<times> PickleReader" where
  "read_str16_with_char_count r = decode_current utf16_le (read_blob True r)"

definition read_pickle :: "PickleReader \<Rightarrow> error + bool \<times> PickleReader" where
  "read_pickle r =
     (let (length_buff, r1) = stream_read 4 r in
      if length length_buff \<noteq> 4 then Inr (False, r1\<lparr>current := PNone\<rparr>)
      else (let len = le_sint length_buff; (pickle_buff, r2) = stream_read len r1 in
            if int (length pickle_buff) \<noteq> len then Inr (False, r2\<lparr>current := PNone\<rparr>)
            else thn (PickleReader_init (length_buff @ pickle_buff))
                   (\<lambda>nested. Inr (True, r2\<lparr>current := PPickle (stream nested)\<rparr>))))"

text \<open>The table \<open>_func_lookup\<close>.\<close>

fun func_lookup :: "PickleType \<Rightarrow> PickleReader \<Rightarrow> error + bool \<times> PickleReader" where
  "func_lookup Bool r = Inr (read_bool r)"
| "func_lookup Int16 r = Inr (read_short r)"
| "func_lookup UInt16 r = Inr (read_ushort r)"
| "func_lookup Int32 r = Inr (read_int r)"
| "func_lookup UInt32 r = Inr (read_uint r)"
| "func_lookup Int64 r = Inr (read_long r)"
| "func_lookup UInt64 r = Inr (read_ulong r)"
| "func_lookup Single r = Inr (read_single r)"
| "func_lookup Double r = Inr (read_double r)"
| "func_lookup Blob r = Inr (read_blob False r)"
| "func_lookup String r = read_str r"
| "func_lookup String16 r = read_str16_with_char_count r"
| "func_lookup DateTime r = read_timestamp r"
| "func_lookup Pickle r = read_pickle r"
| "func_lookup String16ByteCount r = read_str16_with_byte_count r"

text \<open>
  \<open>deserialise_into_dict\<close>: the dictionary is an association list in insertion
  order; storing under a key it already has replaces the value in place.
\<close>

type_synonym pydict = "(string \<times> pyval) list"

fun deserialise_loop ::
  "(string \<times> PickleType) list \<Rightarrow> bool \<Rightarrow> pydict \<Rightarrow> PickleReader
   \<Rightarrow> error + pydict \<times> PickleReader" where
  "deserialise_loop [] raise_on_missing result r = Inr (result, r)"
| "deserialise_loop ((field, field_type) # rest) raise_on_missing result r =
     thn (func_lookup field_type r) (\<lambda>(success, r1).
       if \<not> success \<and> raise_on_missing then Inl ValueError
       else deserialise_loop rest raise_on_missing
              (if field \<notin> fst ` set result \<or> success
               then AList.update field (current r1) result else result) r1)"

definition deserialise_into_dict ::
  "(string \<times> PickleType) list \<Rightarrow> bool \<Rightarrow> PickleReader \<Rightarrow> error + pydict \<times> PickleReader" where
  "deserialise_into_dict field_list raise_on_missing r =
     deserialise_loop field_list raise_on_missing [] r"

section \<open>ccl\_chrome\_tab\_state\<close>

subsection \<open>ChromeTransition\<close>

definition core_mask :: int where
  "core_mask = 0xff"

definition qualifier_mask :: int where
  "qualifier_mask = 0xffffff00"

definition core_transitions :: "(int \<times> string) list" where
  "core_transitions =
     [(0, ''Link''), (1, ''Typed''), (2, ''AutoBookmark''), (3, ''AutoSubframe''),
      (4, ''ManualSubframe''), (5, ''Generated''), (6, ''AutoToplevel''),
      (7, ''FormSubmit''), (8, ''Reload''), (9, ''Keyword''), (10, ''KeywordGenerated'')]"

definition qualifiers_table :: "(int \<times> string) list" where
  "qualifiers_table =
     [(0x00800000, ''Blocked''), (0x01000000, ''ForwardBack''),
      (0x02000000, ''FromAddressBar''), (0x04000000, ''HomePage''),
      (0x08000000, ''FromApi''), (0x10000000, ''ChainStart''),
      (0x20000000, ''ChainEnd''), (0x40000000, ''ClientRedirect''),
      (0x80000000, ''ServerRedirect'')]"

record ChromeTransition =
  raw_value :: int
  core_transition :: string
  qualifiers :: "string list"

text \<open>
  \<open>ChromeTransition.__init__\<close> on an \<open>int\<close>. The lookup in the dictionary
  \<open>_core_transitions\<close> raises \<open>KeyError\<close> for a key it does not have.
\<close>

definition ChromeTransition_init :: "int \<Rightarrow> error + ChromeTransition" where
  "ChromeTransition_init val =
     (let v = (if val < 0 then val + 0x80000000 * 2 else val) in
      case map_of core_transitions (v AND core_mask) of
        None \<Rightarrow> Inl KeyError
      | Some core \<Rightarrow>
          Inr \<lparr>raw_value = val, core_transition = core,
               qualifiers =
                 map snd (filter (\<lambda>(flag, name). (v AND qualifier_mask) AND flag > 0)
                            qualifiers_table)\<rparr>)"

subsection \<open>Reading with the reader's \<open>current\<close> slot\<close>

text \<open>
  \<open>rd f\<close> is the idiom \<open>pickle_reader.f(); x = pickle_reader.current\<close>;
  \<open>skip_if c f\<close> is \<open>if c: pickle_reader.f()\<close>; \<open>total\<close> lifts a read that
  raises nothing.
\<close>

definition total :: "(PickleReader \<Rightarrow> 'a) \<Rightarrow> PickleReader \<Rightarrow> error + 'a" where
  "total f r = Inr (f r)"

definition rd ::
  "(PickleReader \<Rightarrow> error + bool \<times> PickleReader) \<Rightarrow> PickleReader
   \<Rightarrow> error + pyval \<times> PickleReader" where
  "rd f r = thn (f r) (\<lambda>(success, r1). Inr (current r1, r1))"

definition skip_if ::
  "bool \<Rightarrow> (PickleReader \<Rightarrow> error + 'a \<times> PickleReader) \<Rightarrow> PickleReader
   \<Rightarrow> error + PickleReader" where
  "skip_if c f r = (if c then thn (f r) (\<lambda>(x, r1). Inr r1) else Inr r)"

text \<open>
  \<open>range(n)\<close> for the value a read left in \<open>current\<close>: \<open>None\<close> raises
  \<open>TypeError\<close>, a negative count gives no iteration.
\<close>

fun py_range :: "pyval \<Rightarrow> error + nat" where
  "py_range (PInt n) = Inr (nat n)"
| "py_range (PBool b) = Inr (if b then 1 else 0)"
| "py_range v = Inl TypeError"

fun string_vector_loop ::
  "nat \<Rightarrow> pyval list \<Rightarrow> PickleReader \<Rightarrow> error + pyval list \<times> PickleReader" where
  "string_vector_loop 0 result r = Inr (result, r)"
| "string_vector_loop (Suc n) result r =
     thn (read_str16_with_byte_count r) (\<lambda>(success, r1).
       if \<not> success then Inl EOFError
       else string_vector_loop n (result @ [current r1]) r1)"

definition read_string_vector_from_page_state_pickle ::
  "PickleReader \<Rightarrow> error + pyval list \<times> PickleReader" where
  "read_string_vector_from_page_state_pickle r =
     (case read_int r of (success, r1) \<Rightarrow>
        if \<not> success then Inl EOFError
        else thn (py_range (current r1)) (\<lambda>count. string_vector_loop count [] r1))"

text \<open>
  \<open>len(None)\<close> raises \<open>TypeError\<close>, the \<open>assert\<close> raises \<open>AssertionError\<close>; the
  double is kept as the 64 bits of the blob.
\<close>

definition read_double_from_page_state_pickle ::
  "PickleReader \<Rightarrow> error + pyval \<times> PickleReader" where
  "read_double_from_page_state_pickle r =
     (case read_blob False r of (success, r1) \<Rightarrow>
        (case current r1 of
           PBytes bs \<Rightarrow>
             if length bs = 8 then Inr (PDouble (le_uint bs), r1) else Inl AssertionError
         | _ \<Rightarrow> Inl TypeError))"

subsection \<open>HttpBody\<close>

record HttpBody =
  body_data :: "pyval list"
  file_ranges :: "(pyval \<times> pyval \<times> pyval \<times> pyval) list"
  blobs :: "pyval list"
  body_identifier :: pyval
  contains_passwords :: pyval
  content_type :: pyval

text \<open>
  The element loop of \<open>HttpBody.from_pickle\<close>, with the three lists it appends to.
  A \<open>body_type\<close> that is \<open>None\<close> (its read failed) equals none of the tags and
  takes the last branch.
\<close>

fun http_body_elements ::
  "nat \<Rightarrow> int \<Rightarrow> pyval list \<times> (pyval \<times> pyval \<times> pyval \<times> pyval) list \<times> pyval list
   \<Rightarrow> PickleReader
   \<Rightarrow> error + (pyval list \<times> (pyval \<times> pyval \<times> pyval \<times> pyval) list \<times> pyval list)
               \<times> PickleReader" where
  "http_body_elements 0 version acc r = Inr (acc, r)"
| "http_body_elements (Suc n) version (http_body_data, http_file_ranges, http_blobs) r =
     thn (rd (total read_int) r) (\<lambda>(body_type, r1).
       if body_type = PInt 0 then
         (case read_blob False r1 of (success, r2) \<Rightarrow>
            http_body_elements n version
              (if success \<and> truthy (current r2) then http_body_data @ [current r2]
               else http_body_data, http_file_ranges, http_blobs) r2)
       else if body_type = PInt 1 \<or> body_type = PInt 3 then
         thn (rd (if body_type = PInt 1 then read_str16_with_byte_count else read_str) r1)
           (\<lambda>(file_path, r2).
         thn (rd (total read_long) r2) (\<lambda>(file_start, r3).
         thn (rd (total read_long) r3) (\<lambda>(file_length, r4).
         thn (read_double_from_page_state_pickle r4) (\<lambda>(file_modification_time, r5).
           http_body_elements n version
             (http_body_data,
              http_file_ranges @ [(file_path, file_start, file_length, file_modification_time)],
              http_blobs) r5))))
       else if body_type = PInt 2 then
         thn (rd read_str r1) (\<lambda>(blob, r2).
           http_body_elements n version
             (http_body_data, http_file_ranges,
              if version \<ge> 16 then http_blobs @ [blob] else http_blobs) r2)
       else Inl ValueError)"

definition HttpBody_from_pickle ::
  "PickleReader \<Rightarrow> int \<Rightarrow> error + HttpBody option \<times> PickleReader" where
  "HttpBody_from_pickle r version =
     (case read_bool r of (present, r1) \<Rightarrow>
        if \<not> truthy (current r1) then Inr (None, r1)
        else
          thn (rd (total read_int) r1) (\<lambda>(element_count, r2).
          thn (py_range element_count) (\<lambda>n.
          thn (http_body_elements n version ([], [], []) r2)
            (\<lambda>((http_body_data, http_file_ranges, http_blobs), r3).
          thn (rd (total read_long) r3) (\<lambda>(ident, r4).
          thn (if version \<ge> 12 then rd (total read_bool) r4 else Inr (PBool True, r4))
            (\<lambda>(passwords, r5).
            Inr (Some \<lparr>body_data = http_body_data, file_ranges = http_file_ranges,
                       blobs = http_blobs, body_identifier = ident,
                       contains_passwords = passwords, content_type = PNone\<rparr>, r5)))))))"

subsection \<open>FrameState and PageState\<close>

definition IS_ANDROID :: bool where
  "IS_ANDROID = True"

datatype FrameState =
  FrameState
    (fs_version: int)
    (url_string: pyval)
    (target: pyval)
    (scroll_offset: "pyval \<times> pyval")
    (referrer: pyval)
    (document_state: "pyval list")
    (page_scale_factor: pyval)
    (item_sequence_number: pyval)
    (document_sequence_number: pyval)
    (fs_referrer_policy: pyval)
    (pinch_viewport_scroll_offset: "pyval \<times> pyval")
    (scroll_restoration_type: pyval)
    (state_object: pyval)
    (http_body: "HttpBody option")
    (child_states: "FrameState list")

fun children_loop ::
  "(PickleReader \<Rightarrow> error + 'a \<times> PickleReader) \<Rightarrow> nat \<Rightarrow> 'a list \<Rightarrow> PickleReader
   \<Rightarrow> error + 'a list \<times> PickleReader" where
  "children_loop f 0 children_states r = Inr (children_states, r)"
| "children_loop f (Suc n) children_states r =
     thn (f r) (\<lambda>(child, r1). children_loop f n (children_states @ [child]) r1)"

text \<open>
  \<open>FrameState.from_pickle\<close> calls itself for every child. The first argument is the
  number of nested calls the interpreter's recursion limit still allows; a call beyond
  it raises \<open>RecursionError\<close>.
\<close>

primrec FrameState_from_pickle ::
  "nat \<Rightarrow> PickleReader \<Rightarrow> int \<Rightarrow> bool \<Rightarrow> error + FrameState \<times> PickleReader" where
  "FrameState_from_pickle 0 = (\<lambda>r version is_top. Inl RecursionError)"
| "FrameState_from_pickle (Suc depth) = (\<lambda>r version is_top.
     thn (skip_if (version < 14 \<and> \<not> is_top) (total read_int) r) (\<lambda>r.
     thn (rd read_str16_with_byte_count r) (\<lambda>(url, r).
     thn (skip_if (version < 19) read_str16_with_byte_count r) (\<lambda>r.
     thn (rd read_str16_with_byte_count r) (\<lambda>(tgt, r).
     thn (skip_if (version < 15) read_str16_with_byte_count r) (\<lambda>r.
     thn (skip_if (version < 15) read_str16_with_byte_count r) (\<lambda>r.
     thn (skip_if (version < 15) read_str16_with_byte_count r) (\<lambda>r.
     thn (skip_if (version < 15) read_double_from_page_state_pickle r) (\<lambda>r.
     thn (rd (total read_int) r) (\<lambda>(x, r).
     thn (rd (total read_int) r) (\<lambda>(y, r).
     thn (skip_if (version < 15) (total read_bool) r) (\<lambda>r.
     thn (skip_if (version < 15) (total read_int) r) (\<lambda>r.
     thn (rd read_str16_with_byte_count r) (\<lambda>(refr, r).
     thn (read_string_vector_from_page_state_pickle r) (\<lambda>(doc_state, r).
     thn (read_double_from_page_state_pickle r) (\<lambda>(scale, r).
     thn (rd (total read_long) r) (\<lambda>(item_seq, r).
     thn (rd (total read_long) r) (\<lambda>(doc_seq, r).
     thn (skip_if (version \<ge> 21 \<and> version < 23) (total read_long) r) (\<lambda>r.
     thn (skip_if (version \<ge> 17 \<and> version < 19) (total read_long) r) (\<lambda>r.
     thn (if version \<ge> 18 then rd (total read_int) r else Inr (PInt (- 1), r))
       (\<lambda>(policy, r).
     thn (if version \<ge> 20
          then thn (read_double_from_page_state_pickle r) (\<lambda>(px, r).
               thn (read_double_from_page_state_pickle r) (\<lambda>(py, r). Inr ((px, py), r)))
          else Inr ((PInt (- 1), PInt (- 1)), r))
       (\<lambda>(pinch, r).
     thn (if version \<ge> 22 then rd (total read_int) r else Inr (PInt (- 1), r))
       (\<lambda>(restoration, r).
     thn (rd (total read_bool) r) (\<lambda>(has_state_object, r).
     thn (if truthy has_state_object then rd read_str16_with_byte_count r
          else Inr (PNone, r))
       (\<lambda>(state_obj, r).
     thn (HttpBody_from_pickle r version) (\<lambda>(body, r).
     thn (rd read_str16_with_byte_count r) (\<lambda>(ctype, r).
     thn (skip_if (version < 14) read_str16_with_byte_count r) (\<lambda>r.
     thn (skip_if (IS_ANDROID \<and> version = 11) read_double_from_page_state_pickle r) (\<lambda>r.
     thn (skip_if (IS_ANDROID \<and> version = 11) (total read_bool) r) (\<lambda>r.
     thn (rd (total read_int) r) (\<lambda>(child_count, r).
     thn (py_range child_count) (\<lambda>n.
     thn (children_loop (\<lambda>r. FrameState_from_pickle depth r version False) n [] r)
       (\<lambda>(children_states, r).
       Inr (FrameState version url tgt (x, y) refr doc_state scale item_seq doc_seq
              policy pinch restoration state_obj
              (map_option (\<lambda>b. b\<lparr>content_type := ctype\<rparr>) body) children_states,
            r))))))))))))))))))))))))))))))))))"

definition MIN_VERSION :: int where
  "MIN_VERSION = 11"

definition CURRENT_VERSION :: int where
  "CURRENT_VERSION = 23"

record PageState =
  ps_version :: "int option"
  referenced_files :: "pyval list option"
  frame_state :: "FrameState option"
  ps_url :: pyval

definition PageState_from_pickle :: "nat \<Rightarrow> PickleReader \<Rightarrow> error + PageState" where
  "PageState_from_pickle depth r =
     (case read_int r of (success, r1) \<Rightarrow>
        if \<not> success then Inl EOFError
        else (case current r1 of
                PInt version \<Rightarrow>
                  if version = - 1 then
                    thn (rd read_str r1) (\<lambda>(u, r2).
                      Inr \<lparr>ps_version = None, referenced_files = None,
                           frame_state = None, ps_url = u\<rparr>)
                  else if version > CURRENT_VERSION \<or> version < MIN_VERSION
                  then Inl ValueError
                  else
                    thn (if version \<ge> 14 then read_string_vector_from_page_state_pickle r1
                         else Inr ([], r1)) (\<lambda>(files, r2).
                    thn (FrameState_from_pickle depth r2 version True) (\<lambda>(frame, r3).
                      Inr \<lparr>ps_version = Some version, referenced_files = Some files,
                           frame_state = Some frame, ps_url = PNone\<rparr>))
              | _ \<Rightarrow> Inl TypeError))"

subsection \<open>NavigationEntry\<close>

record NavigationEntry =
  ne_index :: pyval
  ne_url :: pyval
  title :: pyval
  page_state :: "PageState option"
  transition_type :: ChromeTransition
  type_mask :: pyval
  referrer_url :: pyval
  referrer_policy :: pyval
  original_request_url :: pyval
  is_overriding_user_agent :: pyval
  timestamp :: pyval
  search_terms :: pyval
  http_status_code :: pyval

text \<open>A keyword argument taken from \<open>**d\<close>, with the parameter's default.\<close>

definition kwarg :: "pydict \<Rightarrow> string \<Rightarrow> pyval \<Rightarrow> pyval" where
  "kwarg d name dflt = (case map_of d name of None \<Rightarrow> dflt | Some v \<Rightarrow> v)"

text \<open>
  \<open>NavigationEntry.__init__\<close>. A page-state blob that is not empty is parsed as a
  nested record; \<open>ChromeTransition(None)\<close> raises \<open>TypeError\<close> at \<open>None < 0\<close>.
\<close>

definition NavigationEntry_init :: "nat \<Rightarrow> pydict \<Rightarrow> error + NavigationEntry" where
  "NavigationEntry_init depth d =
     (let page_state_blob = kwarg d ''page_state_blob'' PNone in
      thn (if truthy page_state_blob then
             (case page_state_blob of
                PBytes bs \<Rightarrow>
                  thn (PickleReader_init bs) (\<lambda>page_state_pickle.
                  thn (PageState_from_pickle depth page_state_pickle) (\<lambda>ps. Inr (Some ps)))
              | _ \<Rightarrow> Inl TypeError)
           else Inr None) (\<lambda>ps.
      thn (case kwarg d ''transition_type'' PNone of
             PInt v \<Rightarrow> ChromeTransition_init v
           | _ \<Rightarrow> Inl TypeError) (\<lambda>transition.
        Inr \<lparr>ne_index = kwarg d ''index'' PNone,
             ne_url = kwarg d ''url'' PNone,
             title = kwarg d ''title'' PNone,
             page_state = ps,
             transition_type = transition,
             type_mask = kwarg d ''type_mask'' PNone,
             referrer_url = kwarg d ''referrer_url'' PNone,
             referrer_policy = kwarg d ''referrer_policy'' PNone,
             original_request_url = kwarg d ''original_request_url'' PNone,
             is_overriding_user_agent = kwarg d ''is_overriding_user_agent'' (PBool False),
             timestamp = kwarg d ''timestamp'' PNone,
             search_terms = kwarg d ''search_terms'' PNone,
             http_status_code = kwarg d ''http_status_code'' (PInt 0)\<rparr>)))"

text \<open>The tuple \<open>fields\<close> of \<open>NavigationEntry.from_pickle\<close>.\<close>

definition NavigationEntry_fields :: "(string \<times> PickleType) list" where
  "NavigationEntry_fields =
     [(''index'', Int32),
      (''url'', String),
      (''title'', String16),
      (''page_state_blob'', Blob),
      (''transition_type'', Int32),
      (''type_mask'', Int32),
      (''referrer_url'', String),
      (''referrer_policy'', Int32),
      (''original_request_url'', String),
      (''is_overriding_user_agent'', Bool),
      (''timestamp'', DateTime),
      (''search_terms'', String16),
      (''http_status_code'', Int32),
      (''referrer_policy'', Int32)]"

definition NavigationEntry_from_pickle ::
  "nat \<Rightarrow> PickleReader \<Rightarrow> error + NavigationEntry" where
  "NavigationEntry_from_pickle depth r =
     thn (deserialise_into_dict NavigationEntry_fields False r)
       (\<lambda>(d, r1). NavigationEntry_init depth d)"


section \<open>Chrome-SNSS-Parse-OS: the container stream\<close>

text \<open>
  The file object is the list of the bytes not yet read: \<open>read(n)\<close> takes the first
  \<open>n\<close> of them (fewer at the end of the file) and leaves the rest.
\<close>

definition read_tab_restore_command ::
  "nat \<Rightarrow> byte list \<Rightarrow> error + pyval \<times> NavigationEntry" where
  "read_tab_restore_command depth payload =
     thn (PickleReader_init payload) (\<lambda>pickle.
       (case read_int pickle of (success, p1) \<Rightarrow>
          thn (NavigationEntry_from_pickle depth p1) (\<lambda>nav. Inr (current p1, nav))))"

text \<open>
  What \<open>read_navigation_command\<close> returns besides \<open>None\<close>: \<open>(True, (tab_id, entry))\<close>
  or \<open>(False, None)\<close>.
\<close>

datatype command_result = Restore pyval NavigationEntry | Skipped

definition read_navigation_command ::
  "nat \<Rightarrow> byte list \<Rightarrow> error + command_result option \<times> byte list" where
  "read_navigation_command depth f =
     (let size_bytes = take 2 f; f1 = drop 2 f in
      if length size_bytes < 2 then Inr (None, f1)
      else (let command_size = le_uint size_bytes;
                command_bytes = take command_size f1;
                f2 = drop command_size f1 in
            if length command_bytes < command_size then Inl SsnsError
            else (case command_bytes of
                    [] \<Rightarrow> Inl IndexError
                  | command_id # payload \<Rightarrow>
                      if command_id = 1 \<or> command_id = 6 then
                        thn (read_tab_restore_command depth payload)
                          (\<lambda>(tab_id, nav). Inr (Some (Restore tab_id nav), f2))
                      else Inr (Some Skipped, f2))))"

text \<open>
  The generator \<open>iter_navigation_commands\<close>: the items it yields, in order, and how
  it ends: \<open>None\<close> when it returns, the exception when a command raises.
\<close>

function iter_navigation_commands ::
  "nat \<Rightarrow> byte list \<Rightarrow> (pyval \<times> NavigationEntry) list \<times> error option" where
  "iter_navigation_commands depth f =
     (case read_navigation_command depth f of
        Inl e \<Rightarrow> ([], Some e)
      | Inr (None, f') \<Rightarrow> ([], None)
      | Inr (Some c, f') \<Rightarrow>
          (case iter_navigation_commands depth f' of (items, ending) \<Rightarrow>
             (case c of
                Restore tab_id nav \<Rightarrow> ((tab_id, nav) # items, ending)
              | Skipped \<Rightarrow> (items, ending))))"
  by pat_completeness auto
termination
  by (relation "measure (\<lambda>(depth, f). length f)")
     (auto simp: read_navigation_command_def Let_def thn_def
           split: if_splits list.splits sum.splits)

subsection \<open>The form state of a frame\<close>

fun flatten_frame_states :: "FrameState \<Rightarrow> FrameState list" where
  "flatten_frame_states (FrameState v u t so rf ds sc i1 i2 rp pv sr st hb children) =
     FrameState v u t so rf ds sc i1 i2 rp pv sr st hb children
     # concat (map flatten_frame_states children)"

text \<open>The marker \<open>"\n\r?% Blink serialized form state version 9 \n\r=&"\<close>.\<close>

definition blink_magic :: pystr where
  "blink_magic =
     [10, 13] @ map of_char ''?% Blink serialized form state version 9 ''
     @ [10, 13] @ map of_char ''=&''"

text \<open>
  Dictionaries of the form state, in insertion order. \<open>int_of\<close> is Python's \<open>int\<close>
  on a \<open>str\<close>, \<open>None\<close> where it raises \<open>ValueError\<close>; the tokens of a document
  state are \<open>str\<close> or \<open>None\<close>, and \<open>int(None)\<close> raises \<open>TypeError\<close>.
\<close>

type_synonym form_fields = "((pyval \<times> pyval) \<times> pyval list) list"
type_synonym form_state = "(pyval \<times> form_fields) list"

definition setdefault :: "'k \<Rightarrow> 'v \<Rightarrow> ('k \<times> 'v) list \<Rightarrow> ('k \<times> 'v) list" where
  "setdefault k v d = (if k \<in> fst ` set d then d else d @ [(k, v)])"

definition dict_get :: "('k \<times> 'v) list \<Rightarrow> 'k \<Rightarrow> 'v \<Rightarrow> 'v" where
  "dict_get d k dflt = (case map_of d k of None \<Rightarrow> dflt | Some v \<Rightarrow> v)"

fun py_int :: "(pystr \<Rightarrow> int option) \<Rightarrow> pyval \<Rightarrow> error + int" where
  "py_int int_of (PStr s) = (case int_of s of None \<Rightarrow> Inl ValueError | Some n \<Rightarrow> Inr n)"
| "py_int int_of v = Inl TypeError"

fun values_loop ::
  "nat \<Rightarrow> pyval list \<Rightarrow> pyval list \<Rightarrow> error + pyval list \<times> pyval list" where
  "values_loop 0 tokens vals = Inr (vals, tokens)"
| "values_loop (Suc k) [] vals = Inl StopIteration"
| "values_loop (Suc k) (t # tokens) vals = values_loop k tokens (vals @ [t])"

fun items_loop ::
  "(pystr \<Rightarrow> int option) \<Rightarrow> nat \<Rightarrow> pyval list \<Rightarrow> form_fields
   \<Rightarrow> error + form_fields \<times> pyval list" where
  "items_loop int_of 0 tokens d = Inr (d, tokens)"
| "items_loop int_of (Suc j) (field_name # field_type # c # tokens) d =
     (let d1 = setdefault (field_name, field_type) [] d in
      thn (py_int int_of c) (\<lambda>field_count.
      thn (values_loop (nat field_count) tokens (dict_get d1 (field_name, field_type) []))
        (\<lambda>(vals, tokens').
          items_loop int_of j tokens'
            (AList.update (field_name, field_type) vals d1))))"
| "items_loop int_of (Suc j) tokens d = Inl StopIteration"

text \<open>The \<open>while True\<close> loop of \<open>parse_blink_form_state\<close>.\<close>

function forms_loop ::
  "(pystr \<Rightarrow> int option) \<Rightarrow> pyval list \<Rightarrow> form_state \<Rightarrow> error + form_state" where
  "forms_loop int_of tokens result =
     (case tokens of
        [] \<Rightarrow> Inr result
      | form_key # tokens1 \<Rightarrow>
          (let result1 = setdefault form_key [] result in
           case tokens1 of
             [] \<Rightarrow> Inl StopIteration
           | c # tokens2 \<Rightarrow>
               (case py_int int_of c of
                  Inl e \<Rightarrow> Inl e
                | Inr item_count \<Rightarrow>
                    (case items_loop int_of (nat item_count) tokens2
                            (dict_get result1 form_key []) of
                       Inl e \<Rightarrow> Inl e
                     | Inr (d, tokens3) \<Rightarrow>
                         forms_loop int_of tokens3
                           (AList.update form_key d result1)))))"
  by pat_completeness auto
termination
proof -
  have values_loop_length: "length tokens' \<le> length tokens"
    if "values_loop k tokens vals = Inr (vals', tokens')"
    for k tokens vals vals' tokens'
    using that by (induction k tokens vals rule: values_loop.induct) auto
  have items_loop_length: "length tokens' \<le> length tokens"
    if "items_loop int_of j tokens d = Inr (d', tokens')"
    for int_of j tokens d d' tokens'
    using that
  proof (induction int_of j tokens d rule: items_loop.induct)
    case (2 int_of j field_name field_type c tokens d)
    from "2.prems" obtain n vals ts where
      v: "values_loop (nat n) tokens
            (dict_get (setdefault (field_name, field_type) [] d) (field_name, field_type) [])
          = Inr (vals, ts)"
      and i: "items_loop int_of j ts
            (AList.update (field_name, field_type) vals
               (setdefault (field_name, field_type) [] d)) = Inr (d', tokens')"
      by (auto simp: thn_def Let_def split: sum.splits)
    from "2.IH" [OF refl i] values_loop_length [OF v]
    show ?case by simp
  qed auto
  show ?thesis
    by (relation "measure (\<lambda>(int_of, tokens, result). length tokens)")
       (auto dest: items_loop_length)
qed

definition parse_blink_form_state ::
  "(pystr \<Rightarrow> int option) \<Rightarrow> pyval list \<Rightarrow> error + form_state" where
  "parse_blink_form_state int_of obj =
     (case obj of
        [] \<Rightarrow> Inl ValueError
      | magic # tokens \<Rightarrow>
          if magic \<noteq> PStr blink_magic then Inl ValueError
          else forms_loop int_of tokens [])"

subsection \<open>\<open>main\<close>\<close>

text \<open>
  The loop of \<open>main\<close> over the frames of one navigation: every frame with a document
  state that is not empty has it parsed, and an exception of the parser is not caught.
\<close>

fun frames_loop ::
  "(pystr \<Rightarrow> int option) \<Rightarrow> FrameState list \<Rightarrow> bool \<times> form_state list
   \<Rightarrow> error + bool \<times> form_state list" where
  "frames_loop int_of [] acc = Inr acc"
| "frames_loop int_of (frame # frames) (has_frame_state, forms) =
     (if document_state frame \<noteq> [] then
        thn (parse_blink_form_state int_of (document_state frame)) (\<lambda>form_state.
          frames_loop int_of frames (True, forms @ [form_state]))
      else frames_loop int_of frames (has_frame_state, forms))"

record tab_row =
  row_tab_id :: pyval
  row_navigation :: NavigationEntry
  row_has_frame_state :: bool
  row_form_states :: "form_state list"

text \<open>
  The body of the loop for one yielded pair. A page state without a frame tree makes
  \<open>frame.document_state\<close> an attribute access on \<open>None\<close>, as does
  \<open>navigation.timestamp.strftime\<close> for a timestamp that was not read.
\<close>

definition process_navigation ::
  "(pystr \<Rightarrow> int option) \<Rightarrow> pyval \<Rightarrow> NavigationEntry \<Rightarrow> error + tab_row" where
  "process_navigation int_of tab_id navigation =
     thn (case page_state navigation of
            None \<Rightarrow> Inr (False, [])
          | Some ps \<Rightarrow>
              (case frame_state ps of
                 None \<Rightarrow> Inl AttributeError
               | Some root \<Rightarrow> frames_loop int_of (flatten_frame_states root) (False, [])))
       (\<lambda>(has_frame_state, forms).
          if timestamp navigation = PNone then Inl AttributeError
          else Inr \<lparr>row_tab_id = tab_id, row_navigation = navigation,
                    row_has_frame_state = has_frame_state, row_form_states = forms\<rparr>)"

fun consume ::
  "(pystr \<Rightarrow> int option) \<Rightarrow> (pyval \<times> NavigationEntry) list \<times> error option
   \<Rightarrow> tab_row list \<times> error option" where
  "consume int_of ([], ending) = ([], ending)"
| "consume int_of ((tab_id, navigation) # items, ending) =
     (case process_navigation int_of tab_id navigation of
        Inl e \<Rightarrow> ([], Some e)
      | Inr row \<Rightarrow>
          (case consume int_of (items, ending) of (rows, ending') \<Rightarrow> (row # rows, ending')))"

datatype message = InvalidHeader "byte list" | InvalidVersion int

record main_result =
  printed :: "message list"
  rows :: "tab_row list"
  raised :: "error option"

definition SNSS :: "byte list" where
  "SNSS = [0x53, 0x4e, 0x53, 0x53]"

text \<open>
  \<open>main\<close> on the bytes of the input file: what it printed, the rows it wrote for the
  entries it got through, and the exception that ended it, if any (\<open>exit(1)\<close>
  raises \<open>SystemExit\<close>; \<open>struct.unpack\<close> raises on a header shorter than 8 bytes).
  The output directory and the CSV files are left out.
\<close>

definition main :: "(pystr \<Rightarrow> int option) \<Rightarrow> nat \<Rightarrow> byte list \<Rightarrow> main_result" where
  "main int_of depth file =
     (let header = take 8 file; f = drop 8 file in
      if length header \<noteq> 8
      then \<lparr>printed = [], rows = [], raised = Some StructError\<rparr>
      else (let magic = take 4 header; version = le_sint (drop 4 header) in
            if magic \<noteq> SNSS
            then \<lparr>printed = [InvalidHeader magic], rows = [], raised = Some SystemExit\<rparr>
            else (case consume int_of (iter_navigation_commands depth f) of
                    (rs, ending) \<Rightarrow>
                      \<lparr>printed = (if version \<noteq> 1 then [InvalidVersion version] else []),
                       rows = rs, raised = ending\<rparr>)))"

section \<open>Properties\<close>

subsection \<open>Reads of the record reader\<close>

lemma stream_read_4:
  "stream_read 4 r =
     (take 4 (drop (pos r) (stream r)),
      r\<lparr>pos := pos r + min 4 (length (stream r) - pos r)\<rparr>)"
  by (auto simp: stream_read_def Let_def min_def)

lemma PickleReader_init_cases:
  "PickleReader_init blob =
     (if length blob < 4 then Inl EOFError
      else if le_sint (take 4 blob) = int (length blob) - 4
      then Inr \<lparr>stream = blob, pos = 4, current = PNone,
                pickle_length = int (length blob) - 4, blob_length = length blob\<rparr>
      else Inl ValueError)"
  by (auto simp: PickleReader_init_def read_int32'_def stream_read_4 unpack_signed_def
        Let_def min_def)

text \<open>
  C4. A reader is constructed exactly for the buffers of at least 4 bytes whose first
  4 bytes, read as a little-endian signed integer, equal the buffer length minus 4.
  Every buffer with a 4-byte prefix that differs, whether it declares more or fewer
  bytes than follow, is refused with \<open>ValueError\<close> (declared length not equal to
  blob length); a buffer too short to hold the prefix is refused with \<open>EOFError\<close>.
\<close>

theorem PickleReader_init_framing:
  "((\<exists>r. PickleReader_init blob = Inr r) =
      (4 \<le> length blob \<and> le_sint (take 4 blob) = int (length blob) - 4))
   \<and> (4 \<le> length blob \<and> le_sint (take 4 blob) \<noteq> int (length blob) - 4
        \<longrightarrow> PickleReader_init blob = Inl ValueError)
   \<and> (length blob < 4 \<longrightarrow> PickleReader_init blob = Inl EOFError)"
  by (simp add: PickleReader_init_cases)

theorem PickleReader_init_framing_witness:
  "PickleReader_init [5, 0, 0, 0, 1] = Inl ValueError
   \<and> PickleReader_init [0, 0, 0, 0, 1] = Inl ValueError
   \<and> PickleReader_init [1, 0] = Inl EOFError
   \<and> (\<exists>r. PickleReader_init [1, 0, 0, 0, 7] = Inr r)"
  using PickleReader_init_framing [of "[5, 0, 0, 0, 1]"]
    PickleReader_init_framing [of "[0, 0, 0, 0, 1]"]
    PickleReader_init_framing [of "[1, 0]"]
    PickleReader_init_framing [of "[1, 0, 0, 0, 7]"]
  by (simp add: le_sint_def)

text \<open>
  C10, as the code has it. \<open>read_short\<close> and \<open>read_ushort\<close> ask the stream for 4
  bytes and decode the first 2 of what they get. With 4 or more bytes left they
  consume exactly 4; with 2 or 3 bytes left they still succeed and consume those 2
  or 3; with fewer than 2 they fail, clear \<open>current\<close> and consume what was left.
\<close>

theorem read_16bit_consumption:
  "read_short r =
     (let avail = drop (pos r) (stream r) in
      if 2 \<le> length avail
      then (True, r\<lparr>pos := pos r + min 4 (length avail),
                     current := PInt (le_sint (take 2 avail))\<rparr>)
      else (False, r\<lparr>pos := pos r + length avail, current := PNone\<rparr>))
   \<and> read_ushort r =
     (let avail = drop (pos r) (stream r) in
      if 2 \<le> length avail
      then (True, r\<lparr>pos := pos r + min 4 (length avail),
                     current := PInt (int (le_uint (take 2 avail)))\<rparr>)
      else (False, r\<lparr>pos := pos r + length avail, current := PNone\<rparr>))"
  by (auto simp: read_short_def read_int16'_def read_ushort_def read_uint16'_def
        stream_read_4 set_current_def unpack_signed_def unpack_unsigned_def Let_def min_def)

text \<open>
  The claim as stated fails at the end of a record: the 6-byte buffer below is a
  well-formed record with 2 bytes of content, and \<open>read_short\<close> on it succeeds with
  the value \<open>0x1234\<close> after consuming 2 bytes, not 4.
\<close>

theorem read_short_tail_counterexample:
  "PickleReader_init [2, 0, 0, 0, 0x34, 0x12]
     = Inr \<lparr>stream = [2, 0, 0, 0, 0x34, 0x12], pos = 4, current = PNone,
            pickle_length = 2, blob_length = 6\<rparr>
   \<and> read_short \<lparr>stream = [2, 0, 0, 0, 0x34, 0x12], pos = 4, current = PNone,
                  pickle_length = 2, blob_length = 6\<rparr>
     = (True, \<lparr>stream = [2, 0, 0, 0, 0x34, 0x12], pos = 6, current = PInt 0x1234,
               pickle_length = 2, blob_length = 6\<rparr>)
   \<and> pos (snd (read_short \<lparr>stream = [2, 0, 0, 0, 0x34, 0x12], pos = 4, current = PNone,
                  pickle_length = 2, blob_length = 6\<rparr>)) \<noteq> 4 + 4"
  by (simp add: read_short_def read_int16'_def stream_read_def set_current_def
        unpack_signed_def Let_def le_sint_def PickleReader_init_def read_int32'_def)


lemma read_bool_cases:
  "read_bool r =
     (let avail = drop (pos r) (stream r) in
      if 4 \<le> length avail
      then (True, r\<lparr>pos := pos r + 4, current := PBool (le_sint (take 4 avail) \<noteq> 0)\<rparr>)
      else (False, r\<lparr>pos := pos r + length avail, current := PNone\<rparr>))"
  by (auto simp: read_bool_def read_int32'_def stream_read_4 set_current_def
        unpack_signed_def Let_def min_def)

text \<open>Unfolding the reads on a concrete buffer.\<close>

lemmas read_defs =
  thn_def rd_def total_def skip_if_def Let_def
  stream_read_def stream_seek_cur_def set_current_def
  unpack_signed_def le_sint_def
  read_int32'_def read_int64'_def read_raw'_def
  read_int_def read_long_def read_bool_def read_blob_def decode_current_def
  read_str_def read_str16_with_byte_count_def read_str16_with_char_count_def
  datetime_in_range_def read_timestamp_def
  read_string_vector_from_page_state_pickle_def read_double_from_page_state_pickle_def

subsection \<open>ChromeTransition\<close>

lemma and_255: "(x::int) AND 255 = x mod 256"
  using take_bit_eq_mask [of 8 x] take_bit_eq_mod [of 8 x]
  by (simp add: mask_eq_exp_minus_1)

lemma unsigned32:
  fixes v :: int
  assumes "- (2 ^ 31) \<le> v" "v < 2 ^ 31"
  shows "(if v < 0 then v + 0x80000000 * 2 else v) = v mod 2 ^ 32"
proof (cases "v < 0")
  case True
  with assms have "0 \<le> v + 2 ^ 32" "v + 2 ^ 32 < 2 ^ 32" by simp_all
  then have "(v + 2 ^ 32) mod 2 ^ 32 = v + 2 ^ 32" by (rule mod_pos_pos_trivial)
  with True show ?thesis by simp
next
  case False
  with assms have "v mod 2 ^ 32 = v" by (intro mod_pos_pos_trivial) simp_all
  with False show ?thesis by simp
qed

lemma low_byte: "(v mod 2 ^ 32) mod 256 = v mod 256" for v :: int
  by (simp add: mod_mod_cancel)

lemma core_unmapped: "0 \<le> k \<Longrightarrow> (map_of core_transitions k = None) = (10 < k)"
  by (simp add: map_of_eq_None_iff core_transitions_def) arith

lemma qualifier_mask_flag:
  "(flag, name) \<in> set qualifiers_table \<Longrightarrow> (u AND qualifier_mask) AND flag = u AND flag"
  unfolding and.assoc
  by (auto simp: qualifiers_table_def qualifier_mask_def)

lemma qualifier_filter:
  "filter (\<lambda>(flag, name). (u AND qualifier_mask) AND flag > 0) qualifiers_table
   = filter (\<lambda>(flag, name). u AND flag > 0) qualifiers_table"
  by (rule filter_cong) (auto simp: qualifier_mask_flag)

text \<open>
  C1, as the code has it. A signed 32-bit value is decoded as the unsigned value with
  the same bits and never fails for being negative, but the core kind is looked up in
  a table with the keys 0 to 10 only: the decoder returns a result exactly when the low
  byte is at most 10, and raises \<open>KeyError\<close> otherwise. When it returns, the
  qualifiers are those of the table whose bit is set in the unsigned value. So the
  value \<open>-1\<close>, whose low byte is \<open>0xFF\<close>, raises \<open>KeyError\<close>, while \<open>-256\<close>
  (\<open>0xFFFFFF00\<close>) decodes to the core kind of byte 0 and all nine qualifiers.
\<close>

theorem ChromeTransition_init_signed32:
  assumes "- (2 ^ 31) \<le> v" and "v < 2 ^ 31"
  shows "ChromeTransition_init v =
           (case map_of core_transitions (v mod 256) of
              None \<Rightarrow> Inl KeyError
            | Some core \<Rightarrow>
                Inr \<lparr>raw_value = v, core_transition = core,
                     qualifiers =
                       map snd (filter (\<lambda>(flag, name). (v mod 2 ^ 32) AND flag > 0)
                                  qualifiers_table)\<rparr>)
         \<and> ((\<exists>t. ChromeTransition_init v = Inr t) = (v mod 256 \<le> 10))"
proof -
  have u: "(if v < 0 then v + 0x80000000 * 2 else v) = v mod 2 ^ 32"
    using assms by (rule unsigned32)
  have eq: "ChromeTransition_init v =
           (case map_of core_transitions (v mod 256) of
              None \<Rightarrow> Inl KeyError
            | Some core \<Rightarrow>
                Inr \<lparr>raw_value = v, core_transition = core,
                     qualifiers =
                       map snd (filter (\<lambda>(flag, name). (v mod 2 ^ 32) AND flag > 0)
                                  qualifiers_table)\<rparr>)"
    unfolding ChromeTransition_init_def u Let_def core_mask_def and_255 low_byte
      qualifier_filter ..
  have "(map_of core_transitions (v mod 256) = None) = (10 < v mod 256)"
    by (rule core_unmapped) simp
  with eq show ?thesis by (auto split: option.splits)
qed

theorem ChromeTransition_init_signed32_witness:
  "ChromeTransition_init (- 1) = Inl KeyError
   \<and> ChromeTransition_init (- 256) =
       Inr \<lparr>raw_value = - 256, core_transition = ''Link'',
            qualifiers = [''Blocked'', ''ForwardBack'', ''FromAddressBar'', ''HomePage'',
              ''FromApi'', ''ChainStart'', ''ChainEnd'', ''ClientRedirect'',
              ''ServerRedirect'']\<rparr>"
  using ChromeTransition_init_signed32 [of "- 1"] ChromeTransition_init_signed32 [of "- 256"]
  by (simp add: core_transitions_def qualifiers_table_def)

text \<open>The claim as stated fails: the decoder raises on the value \<open>-1\<close>.\<close>

theorem ChromeTransition_minus_one_counterexample:
  "ChromeTransition_init (- 1) = Inl KeyError"
  by (simp add: ChromeTransition_init_def core_transitions_def core_mask_def)

subsection \<open>NavigationEntry\<close>







subsection \<open>PageState and HttpBody\<close>






text \<open>
  C8. When fewer than 4 bytes are left at the body position, the read of the presence
  flag fails and clears \<open>current\<close>, and \<open>HttpBody.from_pickle\<close> returns \<open>None\<close>
  without raising: the same result as for a presence flag that was read as 0.
\<close>

theorem HttpBody_from_pickle_exhausted:
  "(length (drop (pos r) (stream r)) < 4 \<longrightarrow>
      HttpBody_from_pickle r version =
        Inr (None, r\<lparr>pos := pos r + length (drop (pos r) (stream r)),
                      current := PNone\<rparr>))
   \<and> (4 \<le> length (drop (pos r) (stream r))
        \<and> le_sint (take 4 (drop (pos r) (stream r))) = 0 \<longrightarrow>
      HttpBody_from_pickle r version =
        Inr (None, r\<lparr>pos := pos r + 4, current := PBool False\<rparr>))"
  by (simp add: HttpBody_from_pickle_def read_bool_cases Let_def)

theorem HttpBody_from_pickle_exhausted_witness:
  "HttpBody_from_pickle
     \<lparr>stream = [2, 0, 0, 0,  1, 0], pos = 4, current = PInt 7,
      pickle_length = 2, blob_length = 6\<rparr> 23
     = Inr (None, \<lparr>stream = [2, 0, 0, 0,  1, 0], pos = 6, current = PNone,
                   pickle_length = 2, blob_length = 6\<rparr>)
   \<and> fst (read_bool \<lparr>stream = [2, 0, 0, 0,  1, 0], pos = 4, current = PInt 7,
                      pickle_length = 2, blob_length = 6\<rparr>) = False
   \<and> HttpBody_from_pickle
     \<lparr>stream = [4, 0, 0, 0,  0, 0, 0, 0], pos = 4, current = PInt 7,
      pickle_length = 4, blob_length = 8\<rparr> 23
     = Inr (None, \<lparr>stream = [4, 0, 0, 0,  0, 0, 0, 0], pos = 8, current = PBool False,
                   pickle_length = 4, blob_length = 8\<rparr>)"
  using
    HttpBody_from_pickle_exhausted [of
      "\<lparr>stream = [2, 0, 0, 0,  1, 0], pos = 4, current = PInt 7,
        pickle_length = 2, blob_length = 6\<rparr>" 23]
    HttpBody_from_pickle_exhausted [of
      "\<lparr>stream = [4, 0, 0, 0,  0, 0, 0, 0], pos = 4, current = PInt 7,
        pickle_length = 4, blob_length = 8\<rparr>" 23]
  by (simp add: le_sint_def read_bool_cases)

subsection \<open>The command stream\<close>

lemma read_navigation_command_eof:
  "length f < 2 \<Longrightarrow> read_navigation_command depth f = Inr (None, [])"
  by (simp add: read_navigation_command_def Let_def)

lemma read_navigation_command_truncated:
  "2 \<le> length f \<Longrightarrow> length f - 2 < le_uint (take 2 f) \<Longrightarrow>
   read_navigation_command depth f = Inl SsnsError"
  by (simp add: read_navigation_command_def Let_def)

lemma read_navigation_command_empty:
  "2 \<le> length f \<Longrightarrow> le_uint (take 2 f) = 0 \<Longrightarrow>
   read_navigation_command depth f = Inl IndexError"
  by (simp add: read_navigation_command_def Let_def)

lemma tab_restore_example:
  "read_navigation_command 0
     [69, 0,  6,  64, 0, 0, 0,  5, 0, 0, 0,
      0, 0, 0, 0,   0, 0, 0, 0,   0, 0, 0, 0,   0, 0, 0, 0,
      0, 0, 0, 0,   0, 0, 0, 0,   0, 0, 0, 0,   1, 0, 0, 0,
      0, 0, 0, 0,   0, 0, 0, 0,   0, 0, 0, 0, 0, 0, 0, 0,
      0, 0, 0, 0,   0, 0, 0, 0,   2, 0, 0, 0]
   = Inr (Some (Restore (PInt 5)
       \<lparr>ne_index = PInt 0, ne_url = PStr [], title = PStr [], page_state = None,
        transition_type = \<lparr>raw_value = 0, core_transition = ''Link'', qualifiers = []\<rparr>,
        type_mask = PInt 0, referrer_url = PStr [], referrer_policy = PInt 2,
        original_request_url = PStr [], is_overriding_user_agent = PBool False,
        timestamp = PDateTime 0, search_terms = PStr [], http_status_code = PInt 0\<rparr>), [])"
  by (simp add: read_navigation_command_def read_tab_restore_command_def
        PickleReader_init_def NavigationEntry_from_pickle_def NavigationEntry_fields_def
        deserialise_into_dict_def read_defs NavigationEntry_init_def kwarg_def
        ChromeTransition_init_def core_transitions_def core_mask_def qualifier_mask_def
        qualifiers_table_def)

text \<open>
  C7. At a command-length position with fewer than 2 bytes left, the command read
  returns \<open>None\<close> and the generator ends without an exception; with the 2 length
  bytes present and fewer payload bytes left than they declare, the command read
  raises \<open>SsnsError\<close>, and so does the generator. The position is any one the
  iteration reaches: a skipped command hands the rest of the stream on unchanged, a
  tab-restore command yields its entry and then goes on with the rest.
\<close>

theorem command_stream_end:
  "(length f < 2 \<longrightarrow>
      read_navigation_command depth f = Inr (None, [])
      \<and> iter_navigation_commands depth f = ([], None))
   \<and> (2 \<le> length f \<and> length f - 2 < le_uint (take 2 f) \<longrightarrow>
      read_navigation_command depth f = Inl SsnsError
      \<and> iter_navigation_commands depth f = ([], Some SsnsError))
   \<and> (read_navigation_command depth f = Inr (Some Skipped, f') \<longrightarrow>
      iter_navigation_commands depth f = iter_navigation_commands depth f')
   \<and> (read_navigation_command depth f = Inr (Some (Restore tab_id nav), f') \<longrightarrow>
      iter_navigation_commands depth f =
        ((tab_id, nav) # fst (iter_navigation_commands depth f'),
         snd (iter_navigation_commands depth f')))"
  by (simp add: read_navigation_command_eof read_navigation_command_truncated
        iter_navigation_commands.simps [of depth f] split: prod.splits)

theorem command_stream_end_witness:
  "iter_navigation_commands 0 [1, 0, 7,  9] = ([], None)
   \<and> iter_navigation_commands 0 [1, 0, 7,  5, 0, 1, 2] = ([], Some SsnsError)
   \<and> read_navigation_command 0 [9] = Inr (None, [])
   \<and> read_navigation_command 0 [5, 0, 1, 2] = Inl SsnsError
   \<and> iter_navigation_commands 0
       [69, 0,  6,  64, 0, 0, 0,  5, 0, 0, 0,
        0, 0, 0, 0,   0, 0, 0, 0,   0, 0, 0, 0,   0, 0, 0, 0,
        0, 0, 0, 0,   0, 0, 0, 0,   0, 0, 0, 0,   1, 0, 0, 0,
        0, 0, 0, 0,   0, 0, 0, 0,   0, 0, 0, 0, 0, 0, 0, 0,
        0, 0, 0, 0,   0, 0, 0, 0,   2, 0, 0, 0]
     = ([(PInt 5,
          \<lparr>ne_index = PInt 0, ne_url = PStr [], title = PStr [], page_state = None,
           transition_type = \<lparr>raw_value = 0, core_transition = ''Link'', qualifiers = []\<rparr>,
           type_mask = PInt 0, referrer_url = PStr [], referrer_policy = PInt 2,
           original_request_url = PStr [], is_overriding_user_agent = PBool False,
           timestamp = PDateTime 0, search_terms = PStr [], http_status_code = PInt 0\<rparr>)],
        None)"
  using command_stream_end [of "[9]" 0]
    command_stream_end [of "[1, 0, 7,  9]" 0 "[9]"]
    command_stream_end [of "[5, 0, 1, 2]" 0]
    command_stream_end [of "[1, 0, 7,  5, 0, 1, 2]" 0 "[5, 0, 1, 2]"]
    command_stream_end [of "[]" 0]
    command_stream_end [of
       "[69, 0,  6,  64, 0, 0, 0,  5, 0, 0, 0,
        0, 0, 0, 0,   0, 0, 0, 0,   0, 0, 0, 0,   0, 0, 0, 0,
        0, 0, 0, 0,   0, 0, 0, 0,   0, 0, 0, 0,   1, 0, 0, 0,
        0, 0, 0, 0,   0, 0, 0, 0,   0, 0, 0, 0, 0, 0, 0, 0,
        0, 0, 0, 0,   0, 0, 0, 0,   2, 0, 0, 0]" 0 "[]" "PInt 5"
       "\<lparr>ne_index = PInt 0, ne_url = PStr [], title = PStr [], page_state = None,
           transition_type = \<lparr>raw_value = 0, core_transition = ''Link'', qualifiers = []\<rparr>,
           type_mask = PInt 0, referrer_url = PStr [], referrer_policy = PInt 2,
           original_request_url = PStr [], is_overriding_user_agent = PBool False,
           timestamp = PDateTime 0, search_terms = PStr [], http_status_code = PInt 0\<rparr>"]
  by (simp add: tab_restore_example read_navigation_command_def [of 0 "[9]"]
       read_navigation_command_def [of 0 "[1, 0, 7,  9]"]
       read_navigation_command_def [of 0 "[5, 0, 1, 2]"]
       read_navigation_command_def [of 0 "[1, 0, 7,  5, 0, 1, 2]"]
       read_navigation_command_def [of 0 "[]"])

text \<open>
  C9. A command whose 2 length bytes declare 0 payload bytes has no command-id byte:
  indexing the empty read raises \<open>IndexError\<close>, which nothing catches, so the
  generator ends with that exception instead of skipping the command or ending
  cleanly.
\<close>

theorem zero_length_command:
  "2 \<le> length f \<Longrightarrow> le_uint (take 2 f) = 0 \<Longrightarrow>
   read_navigation_command depth f = Inl IndexError
   \<and> iter_navigation_commands depth f = ([], Some IndexError)"
  by (simp add: read_navigation_command_empty iter_navigation_commands.simps [of depth f])

theorem zero_length_command_witness:
  "read_navigation_command 0 [0, 0,  1, 0, 7] = Inl IndexError
   \<and> iter_navigation_commands 0 [0, 0,  1, 0, 7] = ([], Some IndexError)
   \<and> iter_navigation_commands 0 [1, 0, 7,  0, 0] = ([], Some IndexError)"
  using zero_length_command [of "[0, 0,  1, 0, 7]" 0]
    zero_length_command [of "[0, 0]" 0]
  by (simp add: read_navigation_command_def
        iter_navigation_commands.simps [of 0 "[1, 0, 7,  0, 0]"])

subsection \<open>The header\<close>

text \<open>
  C6. When the first 4 bytes are not \<open>SNSS\<close>, \<open>main\<close> ends with an exception and no
  row: \<open>SystemExit\<close> after the report of the header, or the \<open>struct.error\<close> of a
  file shorter than the 8-byte header. When they are \<open>SNSS\<close> and the version is not
  1, the mismatch is printed and nothing else changes: rows and ending are those of
  the command stream after the header, as for the same file with version 1.
\<close>

theorem main_header:
  "(take 4 file \<noteq> SNSS \<longrightarrow>
      rows (main int_of depth file) = []
      \<and> raised (main int_of depth file)
          = Some (if length file < 8 then StructError else SystemExit)
      \<and> printed (main int_of depth file)
          = (if length file < 8 then [] else [InvalidHeader (take 4 file)]))
   \<and> (8 \<le> length file \<and> take 4 file = SNSS \<and> le_sint (take 4 (drop 4 file)) \<noteq> 1 \<longrightarrow>
      main int_of depth file =
        \<lparr>printed = [InvalidVersion (le_sint (take 4 (drop 4 file)))],
         rows = fst (consume int_of (iter_navigation_commands depth (drop 8 file))),
         raised = snd (consume int_of (iter_navigation_commands depth (drop 8 file)))\<rparr>
      \<and> main int_of depth (SNSS @ [1, 0, 0, 0] @ drop 8 file) =
        \<lparr>printed = [],
         rows = fst (consume int_of (iter_navigation_commands depth (drop 8 file))),
         raised = snd (consume int_of (iter_navigation_commands depth (drop 8 file)))\<rparr>)"
  by (auto simp: main_def Let_def SNSS_def le_sint_def min_def take_drop split: prod.splits)

theorem main_header_witness:
  "main (\<lambda>s. None) 0 [0x53, 0x4e, 0x53, 0x54,  1, 0, 0, 0,  1, 0, 7]
     = \<lparr>printed = [InvalidHeader [0x53, 0x4e, 0x53, 0x54]], rows = [],
        raised = Some SystemExit\<rparr>
   \<and> main (\<lambda>s. None) 0 [0x53, 0x4e, 0x53]
     = \<lparr>printed = [], rows = [], raised = Some StructError\<rparr>
   \<and> main (\<lambda>s. None) 0 [0x53, 0x4e, 0x53, 0x53,  2, 0, 0, 0,
          69, 0,  6,  64, 0, 0, 0,  5, 0, 0, 0,
          0, 0, 0, 0,   0, 0, 0, 0,   0, 0, 0, 0,   0, 0, 0, 0,
          0, 0, 0, 0,   0, 0, 0, 0,   0, 0, 0, 0,   1, 0, 0, 0,
          0, 0, 0, 0,   0, 0, 0, 0,   0, 0, 0, 0, 0, 0, 0, 0,
          0, 0, 0, 0,   0, 0, 0, 0,   2, 0, 0, 0]
     = \<lparr>printed = [InvalidVersion 2],
        rows = [\<lparr>row_tab_id = PInt 5,
                 row_navigation =
                   \<lparr>ne_index = PInt 0, ne_url = PStr [], title = PStr [], page_state = None,
                    transition_type =
                      \<lparr>raw_value = 0, core_transition = ''Link'', qualifiers = []\<rparr>,
                    type_mask = PInt 0, referrer_url = PStr [], referrer_policy = PInt 2,
                    original_request_url = PStr [], is_overriding_user_agent = PBool False,
                    timestamp = PDateTime 0, search_terms = PStr [],
                    http_status_code = PInt 0\<rparr>,
                 row_has_frame_state = False, row_form_states = []\<rparr>],
        raised = None\<rparr>"
  using main_header [of "[0x53, 0x4e, 0x53, 0x54,  1, 0, 0, 0,  1, 0, 7]" "\<lambda>s. None" 0]
    main_header [of "[0x53, 0x4e, 0x53]" "\<lambda>s. None" 0]
    main_header [of "[0x53, 0x4e, 0x53, 0x53,  2, 0, 0, 0,
          69, 0,  6,  64, 0, 0, 0,  5, 0, 0, 0,
          0, 0, 0, 0,   0, 0, 0, 0,   0, 0, 0, 0,   0, 0, 0, 0,
          0, 0, 0, 0,   0, 0, 0, 0,   0, 0, 0, 0,   1, 0, 0, 0,
          0, 0, 0, 0,   0, 0, 0, 0,   0, 0, 0, 0, 0, 0, 0, 0,
          0, 0, 0, 0,   0, 0, 0, 0,   2, 0, 0, 0]" "\<lambda>s. None" 0]
  by (simp add: main_def SNSS_def le_sint_def tab_restore_example process_navigation_def
        thn_def iter_navigation_commands.simps [of 0 "[]"]
        iter_navigation_commands.simps [of 0 "69 # xs" for xs]
        read_navigation_command_def [of 0 "[]"])

subsection \<open>The form state\<close>

lemma blink_magic_length: "length blink_magic = 47"
  by (simp add: blink_magic_def)

lemma parse_not_magic:
  "document_state frame \<noteq> [] \<Longrightarrow> hd (document_state frame) \<noteq> PStr blink_magic \<Longrightarrow>
   parse_blink_form_state int_of (document_state frame) = Inl ValueError"
  by (cases "document_state frame") (simp_all add: parse_blink_form_state_def)

lemma frames_loop_first_failure:
  assumes "list_all (\<lambda>f. document_state f = []
              \<or> (\<exists>fs. parse_blink_form_state int_of (document_state f) = Inr fs)) pre"
    and "document_state frame \<noteq> []"
    and "parse_blink_form_state int_of (document_state frame) = Inl e"
  shows "frames_loop int_of (pre @ frame # post) acc = Inl e"
  using assms(1)
proof (induction pre arbitrary: acc)
  case Nil
  show ?case using assms(2,3) by (cases acc) (simp add: thn_def)
next
  case (Cons a pre)
  obtain h fs where acc: "acc = (h, fs)" by (cases acc)
  from Cons.prems have rest: "list_all (\<lambda>f. document_state f = []
              \<or> (\<exists>fs. parse_blink_form_state int_of (document_state f) = Inr fs)) pre"
    and a: "document_state a = []
              \<or> (\<exists>fs. parse_blink_form_state int_of (document_state a) = Inr fs)"
    by simp_all
  show ?case
  proof (cases "document_state a = []")
    case True
    then show ?thesis by (simp add: acc Cons.IH [OF rest])
  next
    case False
    with a obtain fs' where "parse_blink_form_state int_of (document_state a) = Inr fs'"
      by blast
    with False show ?thesis by (simp add: acc thn_def Cons.IH [OF rest])
  qed
qed

lemma frames_loop_raises:
  assumes "frame \<in> set frames"
    and "document_state frame \<noteq> []"
    and "parse_blink_form_state int_of (document_state frame) = Inl e"
  shows "\<exists>e'. frames_loop int_of frames acc = Inl e'"
  using assms(1)
proof (induction frames arbitrary: acc)
  case Nil
  then show ?case by simp
next
  case (Cons a frames)
  obtain h fs where acc: "acc = (h, fs)" by (cases acc)
  show ?case
  proof (cases "a = frame")
    case True
    then show ?thesis using assms(2,3) by (simp add: acc thn_def)
  next
    case False
    with Cons.prems have mem: "frame \<in> set frames" by simp
    show ?thesis
    proof (cases "document_state a = []")
      case True
      then show ?thesis by (simp add: acc Cons.IH [OF mem])
    next
      case ne: False
      show ?thesis
      proof (cases "parse_blink_form_state int_of (document_state a)")
        case (Inl x)
        with ne show ?thesis by (simp add: acc thn_def)
      next
        case (Inr x)
        with ne show ?thesis by (simp add: acc thn_def Cons.IH [OF mem])
      qed
    qed
  qed
qed

text \<open>
  C3, as the code has it. For a document state that is not empty and whose first
  element is not the marker, \<open>parse_blink_form_state\<close> raises \<open>ValueError\<close>. The
  loop of \<open>main\<close> calls the parser for every frame of the flattened tree with a
  document state that is not empty, in order, and catches nothing. So a navigation
  with such a frame anywhere in its tree is never processed to the end: the loop over
  the frames and the processing of the navigation end with an exception, and that
  exception is the \<open>ValueError\<close> of this frame whenever every frame before it has an
  empty document state or one that parses.
\<close>

theorem form_state_not_magic:
  assumes "document_state frame \<noteq> []"
    and "hd (document_state frame) \<noteq> PStr blink_magic"
  shows "parse_blink_form_state int_of (document_state frame) = Inl ValueError
    \<and> (frame \<in> set frames \<longrightarrow> (\<exists>e. frames_loop int_of frames acc = Inl e))
    \<and> (list_all (\<lambda>f. document_state f = []
            \<or> (\<exists>fs. parse_blink_form_state int_of (document_state f) = Inr fs)) pre \<longrightarrow>
         frames_loop int_of (pre @ frame # post) acc = Inl ValueError)
    \<and> (page_state navigation = Some ps \<and> frame_state ps = Some root
         \<and> frame \<in> set (flatten_frame_states root) \<longrightarrow>
         (\<exists>e. process_navigation int_of tab_id navigation = Inl e))
    \<and> (page_state navigation = Some ps \<and> frame_state ps = Some root
         \<and> flatten_frame_states root = pre @ frame # post
         \<and> list_all (\<lambda>f. document_state f = []
            \<or> (\<exists>fs. parse_blink_form_state int_of (document_state f) = Inr fs)) pre \<longrightarrow>
         process_navigation int_of tab_id navigation = Inl ValueError)"
proof -
  have p: "parse_blink_form_state int_of (document_state frame) = Inl ValueError"
    using assms by (rule parse_not_magic)
  note first = frames_loop_first_failure [OF _ assms(1) p]
  note any = frames_loop_raises [OF _ assms(1) p]
  have n1: "\<exists>e. process_navigation int_of tab_id navigation = Inl e"
    if "page_state navigation = Some ps" "frame_state ps = Some root"
      "frame \<in> set (flatten_frame_states root)"
  proof -
    from any [OF that(3)] obtain e where
      "frames_loop int_of (flatten_frame_states root) (False, []) = Inl e" by blast
    with that(1,2) show ?thesis by (simp add: process_navigation_def thn_def)
  qed
  have n2: "process_navigation int_of tab_id navigation = Inl ValueError"
    if "page_state navigation = Some ps" "frame_state ps = Some root"
      "flatten_frame_states root = pre @ frame # post"
      "list_all (\<lambda>f. document_state f = []
            \<or> (\<exists>fs. parse_blink_form_state int_of (document_state f) = Inr fs)) pre"
    using that(1,2) first [OF that(4), of post "(False, [])"]
    by (simp add: process_navigation_def thn_def that(3))
  from p first any n1 n2 show ?thesis by blast
qed


theorem form_state_not_magic_witness:
  "parse_blink_form_state (\<lambda>s. None) [PStr [0x61]] = Inl ValueError
   \<and> parse_blink_form_state (\<lambda>s. None) [PStr blink_magic] = Inr []
   \<and> frames_loop (\<lambda>s. None)
       [FrameState 23 (PStr []) (PStr []) (PInt 0, PInt 0) (PStr []) [PStr blink_magic]
          (PDouble 0) (PInt 0) (PInt 0) (PInt 0) (PDouble 0, PDouble 0)
          (PInt 0) PNone None
          [FrameState 23 (PStr []) (PStr []) (PInt 0, PInt 0) (PStr []) [PStr [0x61]]
          (PDouble 0) (PInt 0) (PInt 0) (PInt 0) (PDouble 0, PDouble 0)
          (PInt 0) PNone None []],
        FrameState 23 (PStr []) (PStr []) (PInt 0, PInt 0) (PStr []) [PStr [0x61]]
          (PDouble 0) (PInt 0) (PInt 0) (PInt 0) (PDouble 0, PDouble 0)
          (PInt 0) PNone None []] (False, []) = Inl ValueError
   \<and> process_navigation (\<lambda>s. None) (PInt 5)
       \<lparr>ne_index = PInt 0, ne_url = PStr [], title = PStr [],
        page_state = Some \<lparr>ps_version = Some 23, referenced_files = Some [],
          frame_state = Some (FrameState 23 (PStr []) (PStr []) (PInt 0, PInt 0) (PStr []) [PStr blink_magic]
          (PDouble 0) (PInt 0) (PInt 0) (PInt 0) (PDouble 0, PDouble 0)
          (PInt 0) PNone None
          [FrameState 23 (PStr []) (PStr []) (PInt 0, PInt 0) (PStr []) [PStr [0x61]]
          (PDouble 0) (PInt 0) (PInt 0) (PInt 0) (PDouble 0, PDouble 0)
          (PInt 0) PNone None []]),
          ps_url = PNone\<rparr>,
        transition_type = \<lparr>raw_value = 0, core_transition = ''Link'', qualifiers = []\<rparr>,
        type_mask = PInt 0, referrer_url = PStr [], referrer_policy = PInt 2,
        original_request_url = PStr [], is_overriding_user_agent = PBool False,
        timestamp = PDateTime 0, search_terms = PStr [], http_status_code = PInt 0\<rparr>
     = Inl ValueError"
  using form_state_not_magic [where
      frame = "FrameState 23 (PStr []) (PStr []) (PInt 0, PInt 0) (PStr []) [PStr [0x61]]
          (PDouble 0) (PInt 0) (PInt 0) (PInt 0) (PDouble 0, PDouble 0)
          (PInt 0) PNone None []"
      and int_of = "\<lambda>s. None"
      and frames = "[FrameState 23 (PStr []) (PStr []) (PInt 0, PInt 0) (PStr []) [PStr blink_magic]
          (PDouble 0) (PInt 0) (PInt 0) (PInt 0) (PDouble 0, PDouble 0)
          (PInt 0) PNone None
          [FrameState 23 (PStr []) (PStr []) (PInt 0, PInt 0) (PStr []) [PStr [0x61]]
          (PDouble 0) (PInt 0) (PInt 0) (PInt 0) (PDouble 0, PDouble 0)
          (PInt 0) PNone None []],
        FrameState 23 (PStr []) (PStr []) (PInt 0, PInt 0) (PStr []) [PStr [0x61]]
          (PDouble 0) (PInt 0) (PInt 0) (PInt 0) (PDouble 0, PDouble 0)
          (PInt 0) PNone None []]"
      and pre = "[FrameState 23 (PStr []) (PStr []) (PInt 0, PInt 0) (PStr []) [PStr blink_magic]
          (PDouble 0) (PInt 0) (PInt 0) (PInt 0) (PDouble 0, PDouble 0)
          (PInt 0) PNone None
          [FrameState 23 (PStr []) (PStr []) (PInt 0, PInt 0) (PStr []) [PStr [0x61]]
          (PDouble 0) (PInt 0) (PInt 0) (PInt 0) (PDouble 0, PDouble 0)
          (PInt 0) PNone None []]]"
      and post = "[]" and acc = "(False, [])" and tab_id = "PInt 5"
      and root = "FrameState 23 (PStr []) (PStr []) (PInt 0, PInt 0) (PStr []) [PStr blink_magic]
          (PDouble 0) (PInt 0) (PInt 0) (PInt 0) (PDouble 0, PDouble 0)
          (PInt 0) PNone None
          [FrameState 23 (PStr []) (PStr []) (PInt 0, PInt 0) (PStr []) [PStr [0x61]]
          (PDouble 0) (PInt 0) (PInt 0) (PInt 0) (PDouble 0, PDouble 0)
          (PInt 0) PNone None []]"
      and ps = "\<lparr>ps_version = Some 23, referenced_files = Some [],
          frame_state = Some (FrameState 23 (PStr []) (PStr []) (PInt 0, PInt 0) (PStr []) [PStr blink_magic]
          (PDouble 0) (PInt 0) (PInt 0) (PInt 0) (PDouble 0, PDouble 0)
          (PInt 0) PNone None
          [FrameState 23 (PStr []) (PStr []) (PInt 0, PInt 0) (PStr []) [PStr [0x61]]
          (PDouble 0) (PInt 0) (PInt 0) (PInt 0) (PDouble 0, PDouble 0)
          (PInt 0) PNone None []]),
          ps_url = PNone\<rparr>"
      and navigation = "\<lparr>ne_index = PInt 0, ne_url = PStr [], title = PStr [],
        page_state = Some \<lparr>ps_version = Some 23, referenced_files = Some [],
          frame_state = Some (FrameState 23 (PStr []) (PStr []) (PInt 0, PInt 0) (PStr []) [PStr blink_magic]
          (PDouble 0) (PInt 0) (PInt 0) (PInt 0) (PDouble 0, PDouble 0)
          (PInt 0) PNone None
          [FrameState 23 (PStr []) (PStr []) (PInt 0, PInt 0) (PStr []) [PStr [0x61]]
          (PDouble 0) (PInt 0) (PInt 0) (PInt 0) (PDouble 0, PDouble 0)
          (PInt 0) PNone None []]),
          ps_url = PNone\<rparr>,
        transition_type = \<lparr>raw_value = 0, core_transition = ''Link'', qualifiers = []\<rparr>,
        type_mask = PInt 0, referrer_url = PStr [], referrer_policy = PInt 2,
        original_request_url = PStr [], is_overriding_user_agent = PBool False,
        timestamp = PDateTime 0, search_terms = PStr [], http_status_code = PInt 0\<rparr>"]
  by (simp add: blink_magic_def parse_blink_form_state_def forms_loop.simps [of _ "[]"])

text \<open>
  The claim as stated fails: the record below decodes to a page state whose root frame
  has the document state \<open>["a"]\<close>, the parser raises \<open>ValueError\<close> on it, and the
  processing of a navigation with that page state ends with that exception.
\<close>

theorem form_state_opaque_counterexample:
  "PageState_from_pickle (Suc 0)
     \<lparr>stream = [116, 0, 0, 0,  23, 0, 0, 0,  0, 0, 0, 0,
         0, 0, 0, 0,  0, 0, 0, 0,  0, 0, 0, 0,  0, 0, 0, 0,  0, 0, 0, 0,
         1, 0, 0, 0,  2, 0, 0, 0,  0x61, 0, 0, 0,
         8, 0, 0, 0,  0, 0, 0, 0, 0, 0, 0, 0,
         0, 0, 0, 0, 0, 0, 0, 0,   0, 0, 0, 0, 0, 0, 0, 0,
         0, 0, 0, 0,
         8, 0, 0, 0,  0, 0, 0, 0, 0, 0, 0, 0,   8, 0, 0, 0,  0, 0, 0, 0, 0, 0, 0, 0,
         0, 0, 0, 0,  0, 0, 0, 0,  0, 0, 0, 0,  0, 0, 0, 0,  0, 0, 0, 0],
      pos = 4, current = PNone, pickle_length = 116, blob_length = 120\<rparr>
     = Inr \<lparr>ps_version = Some 23, referenced_files = Some [],
            frame_state =
              Some (FrameState 23 (PStr []) (PStr []) (PInt 0, PInt 0) (PStr [])
                      [PStr [0x61]]
                      (PDouble 0) (PInt 0) (PInt 0) (PInt 0) (PDouble 0, PDouble 0)
                      (PInt 0) PNone None []),
            ps_url = PNone\<rparr>
   \<and> parse_blink_form_state (\<lambda>s. None) [PStr [0x61]] = Inl ValueError
   \<and> process_navigation (\<lambda>s. None) (PInt 5)
       \<lparr>ne_index = PInt 0, ne_url = PStr [], title = PStr [],
        page_state =
          Some \<lparr>ps_version = Some 23, referenced_files = Some [],
                frame_state =
                  Some (FrameState 23 (PStr []) (PStr []) (PInt 0, PInt 0) (PStr [])
                          [PStr [0x61]]
                          (PDouble 0) (PInt 0) (PInt 0) (PInt 0) (PDouble 0, PDouble 0)
                          (PInt 0) PNone None []),
                ps_url = PNone\<rparr>,
        transition_type = \<lparr>raw_value = 0, core_transition = ''Link'', qualifiers = []\<rparr>,
        type_mask = PInt 0, referrer_url = PStr [], referrer_policy = PInt 2,
        original_request_url = PStr [], is_overriding_user_agent = PBool False,
        timestamp = PDateTime 0, search_terms = PStr [], http_status_code = PInt 0\<rparr>
     = Inl ValueError"
  by (simp add: PageState_from_pickle_def MIN_VERSION_def CURRENT_VERSION_def read_defs
        HttpBody_from_pickle_def IS_ANDROID_def parse_blink_form_state_def blink_magic_def
        process_navigation_def)

end
